theory Spec2Isabelle
  imports Main "HOL-Library.Word"
begin

section \<open>Strings of the host language\<close>

text \<open>
  A JavaScript string is a sequence of UTF-16 code units: \<open>length\<close> counts code units,
  the empty string is the only falsy string, and \<open>trim\<close> removes the code units of the
  ECMAScript productions WhiteSpace and LineTerminator from both ends.
\<close>

type_synonym jsstring = "16 word list"

definition utf16 :: "string \<Rightarrow> jsstring" where
  "utf16 s = map (\<lambda>c. of_nat (of_char c)) s"

definition is_white_space :: "16 word \<Rightarrow> bool" where
  "is_white_space c \<longleftrightarrow>
     c = 0x0009 \<or> c = 0x000A \<or> c = 0x000B \<or> c = 0x000C \<or> c = 0x000D \<or> c = 0x0020
     \<or> c = 0x00A0 \<or> c = 0x1680 \<or> (0x2000 \<le> c \<and> c \<le> 0x200A)
     \<or> c = 0x2028 \<or> c = 0x2029 \<or> c = 0x202F \<or> c = 0x205F \<or> c = 0x3000 \<or> c = 0xFEFF"

definition trim :: "jsstring \<Rightarrow> jsstring" where
  "trim s = rev (dropWhile is_white_space (rev (dropWhile is_white_space s)))"

definition blank :: "jsstring \<Rightarrow> bool" where
  "blank s \<longleftrightarrow> list_all is_white_space s"

section \<open>The transliteration client (services/geminiService)\<close>

text \<open>
  \<open>process.env.API_KEY\<close> is either undefined or a string; the module constant is
  \<open>process.env.API_KEY || ''\<close>.
\<close>

definition apiKey :: "jsstring option \<Rightarrow> jsstring" where
  "apiKey env = (case env of None \<Rightarrow> [] | Some k \<Rightarrow> k)"

definition MODEL_NAME :: jsstring where
  "MODEL_NAME = utf16 ''gemini-3-flash-preview''"

text \<open>An exception value is a host \<open>Error\<close> object carrying its message.\<close>

datatype js_error = Error (message: jsstring)

definition key_missing :: js_error where
  "key_missing = Error (utf16 ''API Key is missing. Please check your environment configuration.'')"

definition transliteration_failed :: js_error where
  "transliteration_failed = Error (utf16 ''Failed to transliterate text. Please try again.'')"

text \<open>The template literal around \<open>${text}\<close>, code unit by code unit.\<close>

definition prompt_head :: jsstring where
  \<open>prompt_head =
     utf16 ''\<newline>      You are a strict transliteration engine. \<newline>''
   @ utf16 ''      Task: Convert the following phonetic English text into Odia (Oriya) script.\<newline>''
   @ utf16 ''      Rules:\<newline>''
   @ utf16 ''      1. Do NOT translate the meaning. Convert the sounds (phonemes) to Odia script.\<newline>''
   @ utf16 ''      2. Maintain punctuation and formatting (newlines, spacing).\<newline>''
   @ utf16 ''      3. Output ONLY the Odia text. No explanations.\<newline>''
   @ utf16 ''      4. Example: "namaskar" -> "''
   @ [0x0B28, 0x0B2E, 0x0B38, 0x0B4D, 0x0B15, 0x0B3E, 0x0B30]
   @ utf16 ''"\<newline>''
   @ utf16 ''      5. Example: "mu bhala achi" -> "''
   @ [0x0B2E, 0x0B41, 0x0B01, 0x0020, 0x0B2D, 0x0B32, 0x0020, 0x0B05, 0x0B1B, 0x0B3F]
   @ utf16 ''"\<newline>''
   @ utf16 ''      \<newline>''
   @ utf16 ''      Input text:\<newline>''
   @ utf16 ''      "''\<close>

definition prompt_tail :: jsstring where
  \<open>prompt_tail = utf16 ''"\<newline>    ''\<close>

definition prompt :: "jsstring \<Rightarrow> jsstring" where
  "prompt text = prompt_head @ text @ prompt_tail"

record request =
  model :: jsstring
  contents :: jsstring

text \<open>
  What the awaited \<open>ai.models.generateContent\<close> call settles with: a rejection carrying
  its cause, or a response whose \<open>text\<close> may be undefined.
\<close>

type_synonym reply = "js_error + jsstring option"

text \<open>
  An \<open>async\<close> function runs to its first \<open>await\<close>. Either it has settled by then
  (returned or thrown), or it has issued a request and the rest of its body is the
  continuation applied to the reply.
\<close>

datatype task =
  Settled "js_error + jsstring"
| Awaiting request "reply \<Rightarrow> js_error + jsstring"

definition transliterateToOdia :: "jsstring \<Rightarrow> jsstring \<Rightarrow> task" where
  "transliterateToOdia key text =
     (if key = [] then Settled (Inl key_missing)
      else if trim text = [] then Settled (Inr [])
      else Awaiting \<lparr>model = MODEL_NAME, contents = prompt text\<rparr>
             (\<lambda>r. case r of
                    Inr response \<Rightarrow>
                      Inr (case response of None \<Rightarrow> [] | Some t \<Rightarrow> trim t)
                  | Inl cause \<Rightarrow> Inl transliteration_failed))"

text \<open>
  One call of the client against a service that answers every request: the value the
  returned promise settles with, and the requests that went out.
\<close>

record call =
  outcome :: "js_error + jsstring"
  issued :: "request list"

definition perform :: "(request \<Rightarrow> reply) \<Rightarrow> task \<Rightarrow> call" where
  "perform service t =
     (case t of
        Settled r \<Rightarrow> \<lparr>outcome = r, issued = []\<rparr>
      | Awaiting rq k \<Rightarrow> \<lparr>outcome = k (service rq), issued = [rq]\<rparr>)"

section \<open>The history cache (types, App)\<close>

record HistoryItem =
  id' :: jsstring
  original :: jsstring
  transliterated :: jsstring
  timestamp :: nat

text \<open>\<open>Date.now().toString()\<close>: the decimal digits of a non-negative integer.\<close>

fun decimal :: "nat \<Rightarrow> jsstring" where
  "decimal n = (if n < 10 then [of_nat (48 + n)]
                else decimal (n div 10) @ [of_nat (48 + n mod 10)])"

declare decimal.simps [simp del]

text \<open>
  The updater passed to \<open>setHistory\<close> on a successful, meaningful conversion.
  \<open>String.prototype.toLowerCase\<close> is a library function over the whole of Unicode; it is
  a parameter here, so every result holds for whatever it computes.
\<close>

definition upsert ::
  "(jsstring \<Rightarrow> jsstring) \<Rightarrow> nat \<Rightarrow> jsstring \<Rightarrow> jsstring \<Rightarrow> HistoryItem list \<Rightarrow> HistoryItem list"
where
  "upsert toLowerCase now text result prev =
     (let newItem = \<lparr>id' = decimal now, original = text, transliterated = result,
                      timestamp = now\<rparr>;
          filtered = filter (\<lambda>p. toLowerCase (original p) \<noteq> toLowerCase text) prev
      in take 10 (newItem # filtered))"

text \<open>No two entries have the same original once both are lower-cased.\<close>

definition unique_originals :: "(jsstring \<Rightarrow> jsstring) \<Rightarrow> HistoryItem list \<Rightarrow> bool" where
  "unique_originals toLowerCase h \<longleftrightarrow> distinct (map (\<lambda>p. toLowerCase (original p)) h)"

definition matching :: "(jsstring \<Rightarrow> jsstring) \<Rightarrow> jsstring \<Rightarrow> HistoryItem list \<Rightarrow> HistoryItem list" where
  "matching toLowerCase text h = filter (\<lambda>p. toLowerCase (original p) = toLowerCase text) h"

section \<open>The debounce hook (useDebounce)\<close>

text \<open>
  The hook keeps the state \<open>debouncedValue\<close> and one effect with dependencies
  \<open>[value, delay]\<close>. The effect schedules \<open>setDebouncedValue(value)\<close> after \<open>delay\<close>
  milliseconds; its cleanup, run before the effect runs again, clears that timeout. The
  pending timeout is kept as the milliseconds left and the value its closure captured.
  \<open>settled\<close> records the values \<open>setDebouncedValue\<close> was called with, oldest first.
\<close>

record 'a debounce =
  deps :: "'a \<times> nat"
  debouncedValue :: 'a
  handler :: "(nat \<times> 'a) option"
  settled :: "'a list"

text \<open>First render: the state starts at \<open>value\<close> and the effect runs.\<close>

definition useDebounce_mount :: "'a \<Rightarrow> nat \<Rightarrow> 'a debounce" where
  "useDebounce_mount v delay =
     \<lparr>deps = (v, delay), debouncedValue = v, handler = Some (delay, v), settled = []\<rparr>"

text \<open>
  A later render with \<open>value\<close> and \<open>delay\<close>: the effect runs again only when a
  dependency differs from the one of its last run.
\<close>

definition useDebounce :: "'a \<Rightarrow> nat \<Rightarrow> 'a debounce \<Rightarrow> 'a debounce" where
  "useDebounce v delay d =
     (if (v, delay) = deps d then d
      else d\<lparr>deps := (v, delay), handler := Some (delay, v)\<rparr>)"

text \<open>Time passing: a pending timeout whose time has come calls \<open>setDebouncedValue\<close>.\<close>

definition elapse :: "nat \<Rightarrow> 'a debounce \<Rightarrow> 'a debounce" where
  "elapse ms d =
     (case handler d of
        None \<Rightarrow> d
      | Some (left, v) \<Rightarrow>
          if left \<le> ms
          then d\<lparr>debouncedValue := v, handler := None, settled := settled d @ [v]\<rparr>
          else d\<lparr>handler := Some (left - ms, v)\<rparr>)"

text \<open>A burst of updates: before each one some time passes, then the hook renders with it.\<close>

fun updates :: "nat \<Rightarrow> (nat \<times> 'a) list \<Rightarrow> 'a debounce \<Rightarrow> 'a debounce" where
  "updates delay [] d = d"
| "updates delay ((gap, v) # us) d = updates delay us (useDebounce v delay (elapse gap d))"

section \<open>The orchestrator (App)\<close>

text \<open>
  What the component is given by its host: the environment variable and the library's
  lower-casing.
\<close>

record host =
  API_KEY :: "jsstring option"
  toLowerCase :: "jsstring \<Rightarrow> jsstring"

text \<open>
  The component's state: its \<open>useState\<close> cells (the copy acknowledgement, which no other
  cell depends on, is left out), the debounce hook, the dependencies \<open>[debouncedInput,
  autoMode]\<close> of the last run of the automatic effect (\<open>handleTransliterate\<close> is memoised
  with no dependencies and never changes), the calls still awaiting a reply, each with the
  text its closure captured and the client's continuation, every request sent so far, and
  the clock \<open>Date.now()\<close> reads.
\<close>

record app =
  inputText :: jsstring
  outputText :: jsstring
  isLoading :: bool
  error :: "jsstring option"
  history :: "HistoryItem list"
  autoMode :: bool
  debounced :: "jsstring debounce"
  effect_deps :: "jsstring \<times> bool"
  in_flight :: "(jsstring \<times> (reply \<Rightarrow> js_error + jsstring)) list"
  sent :: "request list"
  clock :: nat

definition debouncedInput :: "app \<Rightarrow> jsstring" where
  "debouncedInput s = debouncedValue (debounced s)"

text \<open>\<open>handleTransliterate\<close> after its \<open>await\<close>: the rest of \<open>try\<close>, or \<open>catch\<close>, then \<open>finally\<close>.\<close>

definition settle :: "host \<Rightarrow> jsstring \<Rightarrow> js_error + jsstring \<Rightarrow> app \<Rightarrow> app" where
  "settle h text r s =
     (case r of
        Inr result \<Rightarrow>
          s\<lparr>outputText := result,
            history := (if length text > 2 \<and> result \<noteq> []
                        then upsert (toLowerCase h) (clock s) text result (history s)
                        else history s),
            isLoading := False\<rparr>
      | Inl err \<Rightarrow>
          s\<lparr>error := Some (if message err \<noteq> [] then message err
                            else utf16 ''Something went wrong.''),
            isLoading := False\<rparr>)"

text \<open>
  \<open>handleTransliterate\<close> up to its \<open>await\<close>. A client call that has already settled
  resumes before any other event is handled.
\<close>

definition handleTransliterate :: "host \<Rightarrow> jsstring \<Rightarrow> app \<Rightarrow> app" where
  "handleTransliterate h text s =
     (if trim text = [] then s\<lparr>outputText := []\<rparr>
      else
        let s1 = s\<lparr>isLoading := True, error := None\<rparr>
        in case transliterateToOdia (apiKey (API_KEY h)) text of
             Settled r \<Rightarrow> settle h text r s1
           | Awaiting rq k \<Rightarrow>
               s1\<lparr>in_flight := in_flight s1 @ [(text, k)], sent := sent s1 @ [rq]\<rparr>)"

text \<open>The body of the automatic effect.\<close>

definition auto_effect :: "host \<Rightarrow> app \<Rightarrow> app" where
  "auto_effect h s =
     (if autoMode s \<and> debouncedInput s \<noteq> [] then handleTransliterate h (debouncedInput s) s
      else if debouncedInput s = [] then s\<lparr>outputText := []\<rparr>
      else s)"

text \<open>
  A render after a state change: the debounce hook sees the current input with the delay
  800, and the automatic effect runs when one of its dependencies has changed.
\<close>

definition render :: "host \<Rightarrow> app \<Rightarrow> app" where
  "render h s =
     (let s1 = s\<lparr>debounced := useDebounce (inputText s) 800 (debounced s)\<rparr>;
          now_deps = (debouncedInput s1, autoMode s1)
      in if now_deps = effect_deps s1 then s1
         else auto_effect h (s1\<lparr>effect_deps := now_deps\<rparr>))"

text \<open>
  What can happen to the component: the input's \<open>onChange\<close>, the mode button, the manual
  button (rendered in manual mode, disabled while loading or with no input), the clear
  button, a click on the history row at an index, the history's clear button, time
  passing, and the reply to the call at an index of those in flight.
\<close>

datatype event =
  Change jsstring
| ToggleMode
| Transliterate
| ClearAll
| Select nat
| ClearHistory
| Elapse nat
| Reply nat reply

fun handle :: "host \<Rightarrow> event \<Rightarrow> app \<Rightarrow> app" where
  "handle h (Change v) s = s\<lparr>inputText := v\<rparr>"
| "handle h ToggleMode s = s\<lparr>autoMode := \<not> autoMode s\<rparr>"
| "handle h Transliterate s =
     (if \<not> autoMode s \<and> \<not> isLoading s \<and> inputText s \<noteq> []
      then handleTransliterate h (inputText s) s else s)"
| "handle h ClearAll s = s\<lparr>inputText := [], outputText := [], error := None\<rparr>"
| "handle h (Select i) s =
     (if i < length (history s)
      then s\<lparr>inputText := original (history s ! i),
             outputText := transliterated (history s ! i)\<rparr>
      else s)"
| "handle h ClearHistory s = s\<lparr>history := []\<rparr>"
| "handle h (Elapse ms) s = s\<lparr>clock := clock s + ms, debounced := elapse ms (debounced s)\<rparr>"
| "handle h (Reply i r) s =
     (if i < length (in_flight s)
      then settle h (fst (in_flight s ! i)) (snd (in_flight s ! i) r)
             (s\<lparr>in_flight := take i (in_flight s) @ drop (Suc i) (in_flight s)\<rparr>)
      else s)"

definition step :: "host \<Rightarrow> event \<Rightarrow> app \<Rightarrow> app" where
  "step h ev s = render h (handle h ev s)"

definition run :: "host \<Rightarrow> event list \<Rightarrow> app \<Rightarrow> app" where
  "run h evs s = foldl (\<lambda>s ev. step h ev s) s evs"

text \<open>The first render at clock \<open>t0\<close>, with both effects run.\<close>

definition mount :: "host \<Rightarrow> nat \<Rightarrow> app" where
  "mount h t0 =
     auto_effect h
       \<lparr>inputText = [], outputText = [], isLoading = False, error = None, history = [],
        autoMode = True, debounced = useDebounce_mount [] 800, effect_deps = ([], True),
        in_flight = [], sent = [], clock = t0\<rparr>"

text \<open>
  A host for the closed examples: a key is configured, and lower-casing is the library's
  restricted to the letters A to Z.
\<close>

definition ascii_lower :: "jsstring \<Rightarrow> jsstring" where
  "ascii_lower s = map (\<lambda>c. if 0x41 \<le> c \<and> c \<le> 0x5A then c + 0x20 else c) s"

definition demo :: host where
  "demo = \<lparr>API_KEY = Some (utf16 ''k''), toLowerCase = ascii_lower\<rparr>"

section \<open>Properties of the client\<close>

lemma trim_empty_iff: "trim s = [] \<longleftrightarrow> blank s"
proof -
  let ?rest = "dropWhile is_white_space s"
  have rest_empty: "?rest = []" if "\<forall>x\<in>set ?rest. is_white_space x"
  proof (rule ccontr)
    assume ne: "?rest \<noteq> []"
    then have "\<not> is_white_space (hd ?rest)"
      by (rule hd_dropWhile)
    with ne that show False by simp
  qed
  have "trim s = [] \<longleftrightarrow> (\<forall>x\<in>set ?rest. is_white_space x)"
    by (simp add: trim_def)
  also have "\<dots> \<longleftrightarrow> ?rest = []"
  proof
    assume "\<forall>x\<in>set ?rest. is_white_space x"
    then show "?rest = []" by (rule rest_empty)
  next
    assume "?rest = []"
    then show "\<forall>x\<in>set ?rest. is_white_space x"
      by (metis empty_iff empty_set)
  qed
  also have "\<dots> \<longleftrightarrow> blank s"
    by (simp add: blank_def list_all_iff)
  finally show ?thesis .
qed

text \<open>
  C10. With no credential (the environment variable undefined or empty) the client throws
  the configuration error for every input, blank ones included, and issues no request:
  the credential check comes before the blank-input shortcut.
\<close>

theorem missing_key_throws_for_every_input:
  "perform service (transliterateToOdia (apiKey None) text)
     = \<lparr>outcome = Inl key_missing, issued = []\<rparr>
   \<and> perform service (transliterateToOdia (apiKey (Some [])) text)
     = \<lparr>outcome = Inl key_missing, issued = []\<rparr>"
  by (simp add: transliterateToOdia_def perform_def apiKey_def)

end
